theory Spec2Isabelle
  imports Complex_Main
begin

section \<open>The text-generation scheduler of \<open>engine/generation.py\<close> (class \<open>HFModel\<close>)\<close>

text \<open>
  The methods of \<open>HFModel\<close> are embedded as HOL functions. Python integers are \<open>int\<close>,
  Python floats are taken in exact arithmetic as \<open>rat\<close> (rounding of doubles is not
  modelled), \<open>None\<close>-able values are \<open>option\<close>s, and every \<open>raise\<close> and failed
  \<open>assert\<close> of the source is a value \<open>Inl e\<close> of the result type \<open>exn + 'a\<close>.

  Effects are explicit: every function that performs one takes the trace of the effects
  performed so far and returns the extended trace. The collaborator \<open>model.generate\<close> is
  a parameter; its answer may depend on its arguments and on the whole trace, so that the
  same call may run out of memory once and succeed after memory has been released.
  Collaborators whose failure the source does not handle (tokenizer, prompt template,
  post-processing) are parameters that return normally.
\<close>

subsection \<open>Exceptions and effects\<close>

datatype exn =
    OutOfMemoryError            \<comment> \<open>\<open>torch.cuda.OutOfMemoryError\<close>, a subclass of \<open>RuntimeError\<close>\<close>
  | RuntimeError string
  | AssertionError string
  | ZeroDivisionError
  | IndexError
  | OtherException string       \<comment> \<open>any exception that is not a \<open>RuntimeError\<close>\<close>

fun isinstance_RuntimeError :: "exn \<Rightarrow> bool" where
  "isinstance_RuntimeError OutOfMemoryError = True"
| "isinstance_RuntimeError (RuntimeError m) = True"
| "isinstance_RuntimeError e = False"

fun isinstance_OutOfMemoryError :: "exn \<Rightarrow> bool" where
  "isinstance_OutOfMemoryError OutOfMemoryError = True"
| "isinstance_OutOfMemoryError e = False"

datatype warning =
    GreedyWithSeveralSequences  \<comment> \<open>the advisory of \<open>generate_text\<close>, lines 426-428\<close>
  | ReducingBatchSize int int   \<comment> \<open>the \<open>RuntimeWarning\<close> of line 639: old and new batch size\<close>

datatype event =
    SetAllSeeds int             \<comment> \<open>\<open>utils.set_all_seeds(seed)\<close>\<close>
  | Warn warning                \<comment> \<open>\<open>warnings.warn(...)\<close>\<close>
  | GcCollect                   \<comment> \<open>\<open>gc.collect()\<close>\<close>
  | EmptyCache                  \<comment> \<open>\<open>torch.cuda.empty_cache()\<close>\<close>
  | Generate int                \<comment> \<open>a call of \<open>model.generate\<close> with this \<open>num_return_sequences\<close>\<close>

type_synonym trace = "event list"

type_synonym tokens = "int list"

subsection \<open>The batch plan of \<open>generate_text\<close> (lines 470-477)\<close>

text \<open>
  \<open>[batch_size] * k\<close> is the empty list for \<open>k \<le> 0\<close>; \<open>//\<close> and \<open>%\<close> on Python integers
  round towards minus infinity, as \<open>div\<close> and \<open>mod\<close> on \<open>int\<close> do, and raise for a zero
  divisor.
\<close>

definition generate_text_batch_sizes :: "int \<Rightarrow> int \<Rightarrow> exn + int list" where
  "generate_text_batch_sizes num_return_sequences batch_size =
     (if num_return_sequences > batch_size then
        if batch_size = 0 then Inl ZeroDivisionError
        else
          let batch_sizes = replicate (nat (num_return_sequences div batch_size)) batch_size;
              remainder = num_return_sequences mod batch_size;
              batch_sizes = (if remainder \<noteq> 0 then batch_sizes @ [remainder] else batch_sizes)
          in if sum_list batch_sizes = num_return_sequences then Inr batch_sizes
             else Inl (AssertionError [])
      else Inr [num_return_sequences])"

subsection \<open>Recovery from memory exhaustion: \<open>oom_safe_batch_generation\<close> (lines 614-646)\<close>

text \<open>
  The source's \<open>except RuntimeError\<close> catches the out-of-memory error and every other
  \<open>RuntimeError\<close>, and re-raises the latter; an exception of another class is not caught.
  \<open>math.floor(batch_size*0.8)\<close> is the floor of the exact product. The arguments
  \<open>input\<close>, \<open>generation_config\<close> and \<open>stopping_criteria\<close> are passed on unchanged, so the
  function is polymorphic in them; \<open>**kwargs\<close> is part of the collaborator.
\<close>

function oom_safe_batch_generation ::
  "(trace \<Rightarrow> 'i \<Rightarrow> 'c \<Rightarrow> 's \<Rightarrow> int \<Rightarrow> exn + 'o) \<Rightarrow> 'i \<Rightarrow> 'c \<Rightarrow> 's \<Rightarrow> int \<Rightarrow> trace
     \<Rightarrow> (exn + 'o \<times> int) \<times> trace" where
  "oom_safe_batch_generation gen input generation_config stopping_criteria batch_size tr =
     (case gen tr input generation_config stopping_criteria batch_size of
        Inr out \<Rightarrow> (Inr (out, batch_size), tr @ [Generate batch_size])
      | Inl e \<Rightarrow>
          if isinstance_RuntimeError e then
            if isinstance_OutOfMemoryError e then
              if batch_size = 1 then
                (Inl (RuntimeError
                   ''Even a batch size of 1 causes an OOM. Cannot generate with current config.''),
                 tr @ [Generate batch_size])
              else
                let new_batch_size = max 1 \<lfloor>of_int batch_size * (8 / 10 :: rat)\<rfloor>
                in oom_safe_batch_generation gen input generation_config stopping_criteria
                     new_batch_size
                     (tr @ [Generate batch_size,
                            Warn (ReducingBatchSize batch_size new_batch_size),
                            GcCollect, EmptyCache])
            else (Inl e, tr @ [Generate batch_size])
          else (Inl e, tr @ [Generate batch_size]))"
  by pat_completeness auto
termination
proof (relation "measure (\<lambda>(gen, input, generation_config, stopping_criteria, batch_size, tr).
                   if batch_size < 1 then 2 else nat batch_size)", goal_cases)
  case 1
  show ?case by simp
next
  case (2 gen input generation_config stopping_criteria batch_size tr e new_batch_size)
  have small: "new_batch_size < batch_size" if "2 \<le> batch_size"
  proof -
    have "of_int batch_size * (8 / 10 :: rat) < of_int batch_size" using that by simp
    then have "\<lfloor>of_int batch_size * (8 / 10 :: rat)\<rfloor> < batch_size"
      by (simp add: floor_less_iff)
    then show ?thesis using 2 that by simp
  qed
  have one: "new_batch_size = 1" if "batch_size < 1"
  proof -
    have "of_int batch_size \<le> (0 :: rat)" using that by simp
    then have "of_int batch_size * (8 / 10 :: rat) \<le> 0"
      by (simp add: mult_le_0_iff)
    then have "\<lfloor>of_int batch_size * (8 / 10 :: rat)\<rfloor> < 1" by (simp add: floor_less_iff)
    then show ?thesis using 2 by simp
  qed
  have "1 \<le> new_batch_size" using 2 by simp
  then show ?case using small one 2 by (cases "batch_size < 1") auto
qed

declare oom_safe_batch_generation.simps [simp del]

subsection \<open>The model object\<close>

text \<open>
  The three places that may declare the special token identifiers
  (\<open>model.generation_config\<close>, \<open>model.config\<close>, \<open>tokenizer\<close>) are records of optional
  identifiers; \<open>GenerationConfig\<close> extends that record with the fields this module sets.
\<close>

record token_ids =
  eos_token_id :: "int option"
  bos_token_id :: "int option"
  pad_token_id :: "int option"

record GenerationConfig = token_ids +
  max_new_tokens :: int
  min_new_tokens :: int
  do_sample :: bool
  top_k :: "int option"
  top_p :: "rat option"
  temperature :: rat

text \<open>
  What this module uses of the library class \<open>transformers.GenerationConfig\<close>: the values
  its constructor gives the sampling fields, and which names are attributes of a
  configuration object (the test made by its \<open>update\<close> method).
\<close>

record generation_library =
  default_top_k :: "int option"
  default_top_p :: "rat option"
  default_temperature :: rat
  hasattr :: "string \<Rightarrow> bool"

record prompt_template =
  mode :: string
  default_mode :: string

record HFModel =
  model_generation_config :: token_ids
  model_config :: token_ids
  tokenizer :: token_ids
  prompt_template :: prompt_template
  extra_eos_tokens :: "string list"
  max_memory_footprint :: rat
  parameters_count :: rat  \<comment> \<open>the value of \<open>parameters_count()\<close>, in billions\<close>

subsection \<open>\<open>format_prompt\<close> (lines 146-185)\<close>

text \<open>
  Modelled from the spec: \<open>GenericPromptTemplate.set_mode\<close> of \<open>engine.prompt_template\<close>
  is not among the sources; it switches the template to the given mode.
\<close>

definition set_mode :: "string \<Rightarrow> prompt_template \<Rightarrow> prompt_template" where
  "set_mode m t = t\<lparr>mode := m\<rparr>"

text \<open>
  \<open>get_prompt\<close> of the template is a parameter: it reads the template (its mode included)
  and the four strings.
\<close>

definition format_prompt ::
  "(prompt_template \<Rightarrow> string \<Rightarrow> string \<Rightarrow> string \<Rightarrow> string \<Rightarrow> string)
     \<Rightarrow> HFModel \<Rightarrow> string \<Rightarrow> string \<Rightarrow> string \<Rightarrow> string \<Rightarrow> string \<Rightarrow> string \<times> HFModel" where
  "format_prompt get_prompt self prompt model_context infill_suffix system_prompt
       prompt_template_mode =
     (let old_mode = mode (prompt_template self);
          self = self\<lparr>prompt_template := set_mode prompt_template_mode (prompt_template self)\<rparr>;
          formatted_prompt =
            get_prompt (prompt_template self) prompt model_context infill_suffix system_prompt;
          self = self\<lparr>prompt_template := set_mode old_mode (prompt_template self)\<rparr>
      in (formatted_prompt, self))"

subsection \<open>\<open>create_stopping_criteria\<close> (lines 188-233)\<close>

typedecl CodeParser

datatype stopping_patterns =
    PatternList "string list"
  | PatternTuple "string list"
  | PatternBool bool
  | PatternNone

text \<open>
  The stopping criterion is an object of \<open>engine.stopping\<close> built from the constructor's
  arguments; the tokenizer argument is always the model's own and is left out.
\<close>

datatype TextPatternStopping =
  TextPatternStopping int "string list option" "string list" "CodeParser option"

type_synonym StoppingCriteriaList = "TextPatternStopping list"

definition create_stopping_criteria ::
  "string list \<Rightarrow> HFModel \<Rightarrow> int \<Rightarrow> stopping_patterns \<Rightarrow> CodeParser option
     \<Rightarrow> StoppingCriteriaList option \<times> string list option" where
  "create_stopping_criteria EXTENDED_CODE_STOP_PATTERNS self input_length patterns parser =
     (case patterns of
        PatternList ps \<Rightarrow>
          (Some [TextPatternStopping input_length (Some ps) (extra_eos_tokens self) parser],
           Some ps)
      | PatternTuple ps \<Rightarrow>
          (Some [TextPatternStopping input_length (Some ps) (extra_eos_tokens self) parser],
           Some ps)
      | PatternBool True \<Rightarrow>
          (Some [TextPatternStopping input_length (Some EXTENDED_CODE_STOP_PATTERNS)
                   (extra_eos_tokens self) parser],
           Some EXTENDED_CODE_STOP_PATTERNS)
      | _ \<Rightarrow>
          (if length (extra_eos_tokens self) = 0 then None
           else Some [TextPatternStopping input_length None (extra_eos_tokens self) parser],
           None))"

subsection \<open>\<open>create_generation_config\<close> (lines 236-318)\<close>

definition retrieve_eos_token_id :: "HFModel \<Rightarrow> exn + int" where
  "retrieve_eos_token_id self =
     (case eos_token_id (model_generation_config self) of
        Some v \<Rightarrow> Inr v
      | None \<Rightarrow>
     (case eos_token_id (model_config self) of
        Some v \<Rightarrow> Inr v
      | None \<Rightarrow>
     (case eos_token_id (tokenizer self) of
        Some v \<Rightarrow> Inr v
      | None \<Rightarrow> Inl (RuntimeError ''Impossible to find the `eos_token_id`.''))))"

definition retrieve_bos_token_id :: "HFModel \<Rightarrow> exn + int" where
  "retrieve_bos_token_id self =
     (case bos_token_id (model_generation_config self) of
        Some v \<Rightarrow> Inr v
      | None \<Rightarrow>
     (case bos_token_id (model_config self) of
        Some v \<Rightarrow> Inr v
      | None \<Rightarrow>
     (case bos_token_id (tokenizer self) of
        Some v \<Rightarrow> Inr v
      | None \<Rightarrow> Inl (RuntimeError ''Impossible to find the `bos_token_id`.''))))"

definition retrieve_pad_token_id :: "HFModel \<Rightarrow> int \<Rightarrow> int" where
  "retrieve_pad_token_id self eos =
     (case pad_token_id (model_generation_config self) of
        Some v \<Rightarrow> v
      | None \<Rightarrow>
     (case pad_token_id (model_config self) of
        Some v \<Rightarrow> v
      | None \<Rightarrow>
     (case pad_token_id (tokenizer self) of
        Some v \<Rightarrow> v
      | None \<Rightarrow> eos)))"

text \<open>
  The constructor call of line 309, and \<open>update(top_k=..., top_p=..., temperature=...)\<close>
  of line 315: a keyword that names an attribute of the configuration is assigned, the
  other keywords are returned.
\<close>

definition GenerationConfig_init ::
  "generation_library \<Rightarrow> int \<Rightarrow> int \<Rightarrow> int \<Rightarrow> int \<Rightarrow> int \<Rightarrow> bool \<Rightarrow> GenerationConfig" where
  "GenerationConfig_init lib eos bos pad max_new min_new sample =
     \<lparr>eos_token_id = Some eos, bos_token_id = Some bos, pad_token_id = Some pad,
      max_new_tokens = max_new, min_new_tokens = min_new, do_sample = sample,
      top_k = default_top_k lib, top_p = default_top_p lib,
      temperature = default_temperature lib\<rparr>"

definition GenerationConfig_update ::
  "generation_library \<Rightarrow> GenerationConfig \<Rightarrow> int option \<Rightarrow> rat option \<Rightarrow> rat
     \<Rightarrow> GenerationConfig \<times> string list" where
  "GenerationConfig_update lib config k p t =
     (let config = (if hasattr lib ''top_k'' then config\<lparr>top_k := k\<rparr> else config);
          config = (if hasattr lib ''top_p'' then config\<lparr>top_p := p\<rparr> else config);
          config = (if hasattr lib ''temperature'' then config\<lparr>temperature := t\<rparr> else config)
      in (config, filter (\<lambda>key. \<not> hasattr lib key) [''top_k'', ''top_p'', ''temperature'']))"

definition create_generation_config ::
  "generation_library \<Rightarrow> HFModel \<Rightarrow> int \<Rightarrow> int \<Rightarrow> bool \<Rightarrow> int option \<Rightarrow> rat option \<Rightarrow> rat
     \<Rightarrow> exn + GenerationConfig" where
  "create_generation_config lib self max_new min_new sample k p t =
     (let sample = (if t = 0 then False else sample) in
      case retrieve_eos_token_id self of
        Inl e \<Rightarrow> Inl e
      | Inr eos \<Rightarrow>
      (case retrieve_bos_token_id self of
        Inl e \<Rightarrow> Inl e
      | Inr bos \<Rightarrow>
        let pad = retrieve_pad_token_id self eos;
            generation_config = GenerationConfig_init lib eos bos pad max_new min_new sample
        in if sample then
             let (generation_config, unused) = GenerationConfig_update lib generation_config k p t
             in if length unused = 0 then Inr generation_config
                else Inl (AssertionError ''There is a typo in some generation config parameters.'')
           else Inr generation_config))"


subsection \<open>Batch size estimation (lines 520-611)\<close>

record fit =
  intercept :: rat
  slope :: rat
  rvalue :: rat

text \<open>
  What \<open>infer_best_batch_size\<close> reads from outside the model object: whether a CUDA device
  is present, the two total memory sizes in bytes, the parsed estimator file of this model
  and data type (\<open>None\<close> when the file does not exist: the flag
  \<open>only_scale_with_input_size\<close> and the table from sequence length to memory), and
  \<open>scipy.stats.linregress\<close>.
\<close>

record memory_env =
  cuda_is_available :: bool
  virtual_memory_total :: rat
  cuda_total_memory :: rat
  batch_footprint_file :: "(bool \<times> (int \<times> rat) list) option"
  linregress :: "int list \<Rightarrow> rat list \<Rightarrow> fit"

definition infer_best_batch_size_by_heuristics :: "HFModel \<Rightarrow> rat \<Rightarrow> int" where
  "infer_best_batch_size_by_heuristics self available_memory =
     (let parameters = parameters_count self;
          batch =
            (if parameters < 5 then \<lfloor>available_memory / (1 / 2)\<rfloor>
             else if parameters < 10 then \<lfloor>available_memory / 1\<rfloor>
             else if parameters < 20 then \<lfloor>available_memory / 2\<rfloor>
             else \<lfloor>available_memory / 3\<rfloor>)
      in max batch 1)"

text \<open>
  \<open>a // b\<close> on floats is the floor of the quotient and raises \<open>ZeroDivisionError\<close> for
  \<open>b = 0\<close>. The parameter \<open>num_return_sequences\<close> is not used by the source.
\<close>

definition infer_best_batch_size :: "memory_env \<Rightarrow> HFModel \<Rightarrow> int \<Rightarrow> int \<Rightarrow> int \<Rightarrow> exn + int" where
  "infer_best_batch_size env self input_size max_new num_sequences =
     (let memory = (if \<not> cuda_is_available env then virtual_memory_total env / 1024 ^ 3
                    else cuda_total_memory env / 1024 ^ 3);
          available_memory = memory * (85 / 100) - max_memory_footprint self
      in case batch_footprint_file env of
           None \<Rightarrow> Inr (infer_best_batch_size_by_heuristics self available_memory)
         | Some (only_scale_with_input_size, batch_footprint) \<Rightarrow>
             let sorted = sort_key fst batch_footprint;
                 x = map fst sorted;
                 y = map snd sorted;
                 fit = linregress env x y;
                 r2 = (rvalue fit) ^ 2;
                 sequence_length =
                   (if only_scale_with_input_size then input_size else input_size + max_new)
             in if r2 \<ge> 95 / 100 then
                  let memory_needed = intercept fit + slope fit * of_int sequence_length
                  in if memory_needed = 0 then Inl ZeroDivisionError
                     else Inr \<lfloor>available_memory / memory_needed\<rfloor>
                else Inr (infer_best_batch_size_by_heuristics self available_memory))"

subsection \<open>\<open>generate_text\<close> (lines 321-512)\<close>

record generate_text_args =
  arg_prompt :: string
  arg_model_context :: string
  arg_infill_suffix :: string
  arg_system_prompt :: string
  arg_prompt_template_mode :: string
  arg_max_new_tokens :: int
  arg_min_new_tokens :: int
  arg_do_sample :: bool
  arg_top_k :: "int option"
  arg_top_p :: "rat option"
  arg_temperature :: rat
  arg_num_return_sequences :: int
  arg_batch_size :: "int option"
  arg_seed :: "int option"
  arg_stopping_patterns :: stopping_patterns
  arg_parser :: "CodeParser option"
  arg_truncate_prompt_from_output :: bool
  arg_post_process_output :: bool

text \<open>
  The collaborators of \<open>generate_text\<close>: \<open>model.generate\<close> (which may raise),
  \<open>tokenizer.encode\<close>, \<open>tokenizer.batch_decode\<close>, \<open>stopping.post_process_sequences\<close>,
  the template's \<open>get_prompt\<close>, the constant \<open>stopping.EXTENDED_CODE_STOP_PATTERNS\<close>, the
  library class of the configuration and the memory environment. A generated batch is a
  list of token sequences, one per returned sequence.
\<close>

record env =
  generate ::
    "trace \<Rightarrow> tokens \<Rightarrow> GenerationConfig \<Rightarrow> StoppingCriteriaList option \<Rightarrow> int
       \<Rightarrow> exn + tokens list"
  encode :: "string \<Rightarrow> tokens"
  batch_decode :: "tokens list \<Rightarrow> string list"
  post_process_sequences ::
    "tokens list \<Rightarrow> string list option \<Rightarrow> string list \<Rightarrow> CodeParser option \<Rightarrow> string list"
  get_prompt :: "prompt_template \<Rightarrow> string \<Rightarrow> string \<Rightarrow> string \<Rightarrow> string \<Rightarrow> string"
  EXTENDED_CODE_STOP_PATTERNS :: "string list"
  library :: generation_library
  memory :: memory_env

datatype generated = Single string | Many "string list"

text \<open>
  Lines 491-506, the body of the loop after the batch of outputs is known: truncate the
  prompt, decode, reattach the prompt.
\<close>

definition decode_batch ::
  "env \<Rightarrow> HFModel \<Rightarrow> generate_text_args \<Rightarrow> nat \<Rightarrow> string list option \<Rightarrow> string
     \<Rightarrow> tokens list \<Rightarrow> string list" where
  "decode_batch E self args input_length patterns original_prompt outputs =
     (let truncated_outputs = map (drop input_length) outputs;
          generated_batch =
            (if arg_post_process_output args then
               post_process_sequences E truncated_outputs patterns (extra_eos_tokens self)
                 (arg_parser args)
             else batch_decode E truncated_outputs)
      in if \<not> arg_truncate_prompt_from_output args then
           map (\<lambda>sequence. original_prompt @ sequence) generated_batch
         else generated_batch)"

text \<open>
  The loop of lines 481-506 over \<open>enumerate(batch_sizes)\<close>: \<open>i\<close> is the index of the head
  of the remaining sizes. The first batch reuses \<open>first_output\<close>; an exception of a later
  \<open>model.generate\<close> is not caught.
\<close>

fun generate_batches ::
  "(trace \<Rightarrow> int \<Rightarrow> exn + tokens list) \<Rightarrow> (tokens list \<Rightarrow> string list) \<Rightarrow> tokens list
     \<Rightarrow> nat \<Rightarrow> int list \<Rightarrow> string list \<Rightarrow> trace \<Rightarrow> (exn + string list) \<times> trace" where
  "generate_batches gen decode first_output i [] generated_text tr = (Inr generated_text, tr)"
| "generate_batches gen decode first_output i (sz # sizes) generated_text tr =
     (if i = 0 then
        generate_batches gen decode first_output (i + 1) sizes
          (generated_text @ decode first_output) tr
      else
        case gen tr sz of
          Inl e \<Rightarrow> (Inl e, tr @ [Generate sz])
        | Inr outputs \<Rightarrow>
            generate_batches gen decode first_output (i + 1) sizes
              (generated_text @ decode outputs) (tr @ [Generate sz]))"

text \<open>
  Lines 431-512: everything after the number of sequences has been settled. The result
  carries the model object (whose template \<open>format_prompt\<close> writes) and the trace.
\<close>

definition generate_text_continue ::
  "env \<Rightarrow> HFModel \<Rightarrow> generate_text_args \<Rightarrow> GenerationConfig \<Rightarrow> int \<Rightarrow> trace
     \<Rightarrow> (exn + generated) \<times> HFModel \<times> trace" where
  "generate_text_continue E self args generation_config num_sequences tr =
     (let (formatted_prompt, self) =
            format_prompt (get_prompt E) self (arg_prompt args) (arg_model_context args)
              (arg_infill_suffix args) (arg_system_prompt args) (arg_prompt_template_mode args);
          original_prompt =
            (if arg_infill_suffix args = [] \<and> arg_system_prompt args = []
             then arg_prompt args @ arg_model_context args else formatted_prompt);
          input = encode E formatted_prompt;
          input_length = length input;
          (stopping_criteria, patterns) =
            create_stopping_criteria (EXTENDED_CODE_STOP_PATTERNS E) self (int input_length)
              (arg_stopping_patterns args) (arg_parser args)
      in case (case arg_batch_size args of
                 None \<Rightarrow> infer_best_batch_size (memory E) self (int input_length)
                           (arg_max_new_tokens args) num_sequences
               | Some b \<Rightarrow> Inr b) of
           Inl e \<Rightarrow> (Inl e, self, tr)
         | Inr batch_size \<Rightarrow>
      (let batch_size = min batch_size num_sequences
       in case oom_safe_batch_generation (generate E) input generation_config
                 stopping_criteria batch_size tr of
            (Inl e, tr) \<Rightarrow> (Inl e, self, tr)
          | (Inr (first_output, batch_size), tr) \<Rightarrow>
       (case generate_text_batch_sizes num_sequences batch_size of
            Inl e \<Rightarrow> (Inl e, self, tr)
          | Inr batch_sizes \<Rightarrow>
       (case generate_batches
                (\<lambda>tr sz. generate E tr input generation_config stopping_criteria sz)
                (decode_batch E self args input_length patterns original_prompt)
                first_output 0 batch_sizes [] tr of
            (Inl e, tr) \<Rightarrow> (Inl e, self, tr)
          | (Inr generated_text, tr) \<Rightarrow>
              if num_sequences = 1 then
                (case generated_text of
                   [] \<Rightarrow> (Inl IndexError, self, tr)
                 | sequence # _ \<Rightarrow> (Inr (Single sequence), self, tr))
              else (Inr (Many generated_text), self, tr)))))"

text \<open>Lines 417-429, then the rest.\<close>

definition generate_text ::
  "env \<Rightarrow> HFModel \<Rightarrow> generate_text_args \<Rightarrow> trace \<Rightarrow> (exn + generated) \<times> HFModel \<times> trace" where
  "generate_text E self args tr =
     (let tr = (case arg_seed args of None \<Rightarrow> tr | Some seed \<Rightarrow> tr @ [SetAllSeeds seed])
      in case create_generation_config (library E) self (arg_max_new_tokens args)
                (arg_min_new_tokens args) (arg_do_sample args) (arg_top_k args)
                (arg_top_p args) (arg_temperature args) of
           Inl e \<Rightarrow> (Inl e, self, tr)
         | Inr generation_config \<Rightarrow>
             if arg_num_return_sequences args > 1 \<and> \<not> do_sample generation_config then
               generate_text_continue E self args generation_config 1
                 (tr @ [Warn GreedyWithSeveralSequences])
             else
               generate_text_continue E self args generation_config
                 (arg_num_return_sequences args) tr)"

subsection \<open>Observations on traces, and the resolution order in the specification's words\<close>





subsection \<open>Concrete inputs\<close>




definition example_library :: generation_library where
  "example_library =
     \<lparr>default_top_k = Some 50, default_top_p = Some 1, default_temperature = 1,
      hasattr = (\<lambda>name. True)\<rparr>"


definition example_model :: HFModel where
  "example_model =
     \<lparr>model_generation_config =
        \<lparr>eos_token_id = None, bos_token_id = Some 1, pad_token_id = None\<rparr>,
      model_config = \<lparr>eos_token_id = Some 2, bos_token_id = Some 7, pad_token_id = None\<rparr>,
      tokenizer = \<lparr>eos_token_id = Some 9, bos_token_id = None, pad_token_id = None\<rparr>,
      prompt_template = \<lparr>mode = ''default'', default_mode = ''generation''\<rparr>,
      extra_eos_tokens = [],
      max_memory_footprint = 14,
      parameters_count = 7\<rparr>"


definition greedy_config :: GenerationConfig where
  "greedy_config =
     \<lparr>eos_token_id = Some 2, bos_token_id = Some 1, pad_token_id = Some 2,
      max_new_tokens = 60, min_new_tokens = 5, do_sample = False,
      top_k = Some 50, top_p = Some 1, temperature = 1\<rparr>"


text \<open>
  A 20 GiB device holding a model of 14 GiB, which leaves \<open>20 * 0.85 - 14 = 3\<close> GiB, and
  the estimator table \<open>{20: 4.0, 10: 2.0}\<close>, whose least-squares line has intercept 0,
  slope 0.2 and correlation 1.
\<close>

definition example_memory :: memory_env where
  "example_memory =
     \<lparr>cuda_is_available = True,
      virtual_memory_total = 64 * 1024 ^ 3,
      cuda_total_memory = 20 * 1024 ^ 3,
      batch_footprint_file = Some (False, [(20, 4), (10, 2)]),
      linregress = (\<lambda>x y. \<lparr>intercept = 0, slope = 1 / 5, rvalue = 1\<rparr>)\<rparr>"

definition example_env :: env where
  "example_env =
     \<lparr>generate = (\<lambda>tr input config criteria n. Inr (replicate (nat n) (input @ [5, 6]))),
      encode = (\<lambda>text. replicate (length text) 3),
      batch_decode = map (\<lambda>sequence. replicate (length sequence) CHR ''x''),
      post_process_sequences =
        (\<lambda>outputs patterns extra parser.
           map (\<lambda>sequence. replicate (length sequence) CHR ''y'') outputs),
      get_prompt = (\<lambda>template prompt context suffix system. prompt @ context),
      EXTENDED_CODE_STOP_PATTERNS = [''def ''],
      library = example_library,
      memory = example_memory\<rparr>"

definition greedy_request :: generate_text_args where
  "greedy_request =
     \<lparr>arg_prompt = ''Hi'', arg_model_context = [], arg_infill_suffix = [],
      arg_system_prompt = [], arg_prompt_template_mode = ''default'',
      arg_max_new_tokens = 60, arg_min_new_tokens = 5, arg_do_sample = False,
      arg_top_k = Some 40, arg_top_p = Some (9 / 10), arg_temperature = 9 / 10,
      arg_num_return_sequences = 2, arg_batch_size = Some 4, arg_seed = None,
      arg_stopping_patterns = PatternNone, arg_parser = None,
      arg_truncate_prompt_from_output = True, arg_post_process_output = True\<rparr>"

definition sampling_request :: generate_text_args where
  "sampling_request =
     greedy_request\<lparr>arg_do_sample := True, arg_num_return_sequences := 3,
                    arg_batch_size := Some 2\<rparr>"

section \<open>Properties\<close>

subsection \<open>Auxiliary facts\<close>


lemma oom_safe_success:
  "gen tr i c s b = Inr out \<Longrightarrow>
   oom_safe_batch_generation gen i c s b tr = (Inr (out, b), tr @ [Generate b])"
  by (subst oom_safe_batch_generation.simps) simp

lemma oom_safe_other:
  "gen tr i c s b = Inl e \<Longrightarrow> e \<noteq> OutOfMemoryError \<Longrightarrow>
   oom_safe_batch_generation gen i c s b tr = (Inl e, tr @ [Generate b])"
  by (subst oom_safe_batch_generation.simps) (cases e; simp)

lemma oom_safe_floor:
  "gen tr i c s 1 = Inl OutOfMemoryError \<Longrightarrow>
   oom_safe_batch_generation gen i c s 1 tr =
     (Inl (RuntimeError
        ''Even a batch size of 1 causes an OOM. Cannot generate with current config.''),
      tr @ [Generate 1])"
  by (subst oom_safe_batch_generation.simps) simp

lemma oom_safe_retry:
  "gen tr i c s b = Inl OutOfMemoryError \<Longrightarrow> b \<noteq> 1 \<Longrightarrow>
   oom_safe_batch_generation gen i c s b tr =
     oom_safe_batch_generation gen i c s (max 1 \<lfloor>of_int b * (8 / 10 :: rat)\<rfloor>)
       (tr @ [Generate b, Warn (ReducingBatchSize b (max 1 \<lfloor>of_int b * (8 / 10 :: rat)\<rfloor>)),
              GcCollect, EmptyCache])"
  by (subst oom_safe_batch_generation.simps) (simp add: Let_def)

lemma oom_safe_trace_starts:
  "\<exists>rest. snd (oom_safe_batch_generation gen i c s b tr) = tr @ Generate b # rest"
proof (induction gen i c s b tr rule: oom_safe_batch_generation.induct)
  case (1 gen i c s b tr)
  show ?case
  proof (cases "gen tr i c s b")
    case (Inr out)
    then show ?thesis by (simp add: oom_safe_success)
  next
    case (Inl e)
    show ?thesis
    proof (cases "e = OutOfMemoryError")
      case False
      then show ?thesis using Inl by (simp add: oom_safe_other)
    next
      case True
      show ?thesis
      proof (cases "b = 1")
        case True
        then show ?thesis using Inl \<open>e = OutOfMemoryError\<close> by (simp add: oom_safe_floor)
      next
        case False
        let ?nb = "max 1 \<lfloor>of_int b * (8 / 10 :: rat)\<rfloor>"
        let ?tr = "tr @ [Generate b, Warn (ReducingBatchSize b ?nb), GcCollect, EmptyCache]"
        from "1.IH"[OF Inl _ _ False refl] True
        obtain rest where
          "snd (oom_safe_batch_generation gen i c s ?nb ?tr) = ?tr @ Generate ?nb # rest"
          by auto
        then show ?thesis using oom_safe_retry[of gen tr i c s b] Inl True False by simp
      qed
    qed
  qed
qed


lemma batch_plan_shape:
  assumes "1 \<le> N" "1 \<le> B" "B < N"
  shows "generate_text_batch_sizes N B =
     Inr (replicate (nat (N div B)) B @ (if N mod B \<noteq> 0 then [N mod B] else []))"
proof -
  have "int (nat (N div B)) = N div B" using assms by (simp add: pos_imp_zdiv_nonneg_iff)
  then have "sum_list (replicate (nat (N div B)) B) = (N div B) * B"
    by (simp add: sum_list_replicate)
  then show ?thesis using assms div_mult_mod_eq[of N B]
    by (auto simp: generate_text_batch_sizes_def Let_def)
qed


subsection \<open>The batch plan\<close>

text \<open>
  Claim C2. For every requested number of sequences \<open>N \<ge> 1\<close> and every effective batch
  size \<open>B \<ge> 1\<close>, the batch plan of \<open>generate_text\<close> is built without error (the
  assertion of line 475 holds); its sizes sum to \<open>N\<close>; every size is at most \<open>B\<close>; at
  most one size is smaller than \<open>B\<close>, and a smaller size can only be the last one.
\<close>

theorem batch_plan_partitions_request:
  assumes "1 \<le> N" "1 \<le> B"
  shows "\<exists>bs. generate_text_batch_sizes N B = Inr bs
     \<and> sum_list bs = N
     \<and> (\<forall>x \<in> set bs. x \<le> B)
     \<and> length (filter (\<lambda>x. x < B) bs) \<le> 1
     \<and> (\<forall>i < length bs. bs ! i < B \<longrightarrow> i = length bs - 1)"
proof (cases "B < N")
  case False
  then show ?thesis using assms by (simp add: generate_text_batch_sizes_def)
next
  case True
  let ?q = "nat (N div B)"
  let ?bs = "replicate ?q B @ (if N mod B \<noteq> 0 then [N mod B] else [])"
  have eq: "generate_text_batch_sizes N B = Inr ?bs" using batch_plan_shape[OF assms True] .
  have q: "int ?q = N div B" using assms by (simp add: pos_imp_zdiv_nonneg_iff)
  have r: "N mod B < B" "0 \<le> N mod B" using assms by simp_all
  have s: "sum_list ?bs = N"
    using q div_mult_mod_eq[of N B] by (auto simp: sum_list_replicate)
  have le: "\<forall>x \<in> set ?bs. x \<le> B" using r by auto
  have f: "length (filter (\<lambda>x. x < B) ?bs) \<le> 1" by simp
  have l: "\<forall>i < length ?bs. ?bs ! i < B \<longrightarrow> i = length ?bs - 1"
    by (auto simp: nth_append split: if_splits)
  show ?thesis using eq s le f l by blast
qed

theorem batch_plan_partitions_request_witness:
  "(1::int) \<le> 20 \<and> (1::int) \<le> 6
   \<and> generate_text_batch_sizes 20 6 = Inr [6, 6, 6, 2]
   \<and> sum_list [6, 6, 6, 2 :: int] = 20"
proof -
  have a: "(1::int) \<le> 20" and b: "(1::int) \<le> 6" by simp_all
  have run: "generate_text_batch_sizes 20 6 = Inr [6, 6, 6, 2]" by code_simp
  from batch_plan_partitions_request[OF a b]
  obtain bs where "generate_text_batch_sizes 20 6 = Inr bs" "sum_list bs = 20" by blast
  then show ?thesis using run by auto
qed

subsection \<open>Recovery from memory exhaustion\<close>









lemma create_generation_config_cases:
  "create_generation_config lib self mx mn ds k p t =
     (case retrieve_eos_token_id self of
        Inl e \<Rightarrow> Inl e
      | Inr eos \<Rightarrow>
        (case retrieve_bos_token_id self of
           Inl e \<Rightarrow> Inl e
         | Inr bos \<Rightarrow>
             if ds \<and> t \<noteq> 0 then
               if hasattr lib ''top_k'' \<and> hasattr lib ''top_p'' \<and> hasattr lib ''temperature''
               then Inr ((GenerationConfig_init lib eos bos (retrieve_pad_token_id self eos)
                            mx mn True)
                           \<lparr>top_k := k, top_p := p, temperature := t\<rparr>)
               else Inl (AssertionError ''There is a typo in some generation config parameters.'')
             else Inr (GenerationConfig_init lib eos bos (retrieve_pad_token_id self eos)
                         mx mn False)))"
  by (auto simp: create_generation_config_def GenerationConfig_update_def Let_def
           split: sum.splits)

lemma created_do_sample:
  "create_generation_config lib self mx mn ds k p t = Inr config \<Longrightarrow>
   do_sample config = (ds \<and> t \<noteq> 0)"
  by (auto simp: create_generation_config_cases GenerationConfig_init_def
      split: sum.splits if_splits)



subsection \<open>The generation configuration\<close>





subsection \<open>Prompt formatting and stopping criteria\<close>


text \<open>
  Claim C10. For every input length and every parser, \<open>create_stopping_criteria\<close> called
  with \<open>stopping_patterns = False\<close> returns what it returns with \<open>stopping_patterns = None\<close>:
  no patterns, and a criterion built from the extra end-of-sequence tokens alone, or no
  criterion when there are no such tokens.
\<close>

theorem stopping_patterns_False_is_None:
  "create_stopping_criteria X self n (PatternBool False) parser
     = create_stopping_criteria X self n PatternNone parser
   \<and> create_stopping_criteria X self n PatternNone parser
     = (if extra_eos_tokens self = [] then None
        else Some [TextPatternStopping n None (extra_eos_tokens self) parser],
        None)"
  by (simp add: create_stopping_criteria_def)

subsection \<open>Batch size estimation\<close>

lemma heuristics_at_least_one:
  "1 \<le> infer_best_batch_size_by_heuristics self available_memory"
  by (simp add: infer_best_batch_size_by_heuristics_def Let_def)

text \<open>
  Claim C1 says that \<open>infer_best_batch_size\<close> returns at least 1 on both of its paths.
  The heuristic path does (\<open>heuristics_at_least_one\<close>: it ends with \<open>max(batch, 1)\<close>); the
  path of the linear fit returns \<open>int(available_memory // memory_needed)\<close> as it is. With
  3 GiB available and a fitted need of 4 GiB for a sequence of 10 + 10 tokens it
  returns 0.
\<close>

theorem fitted_batch_size_can_be_zero:
  "cuda_total_memory example_memory / 1024 ^ 3 * (85 / 100) - max_memory_footprint example_model
     = 3
   \<and> infer_best_batch_size example_memory example_model 10 10 1 = Inr 0"
  by code_simp

text \<open>
  In \<open>generate_text\<close> such an estimate is the batch size of the first call of the model
  and then the divisor of line 471.
\<close>

lemma zero_estimate_in_generate_text:
  "generate_text example_env example_model (sampling_request\<lparr>arg_batch_size := None\<rparr>) [] =
     (Inl ZeroDivisionError, example_model, [Generate 0])"
  by code_simp

subsection \<open>The number of returned sequences\<close>

lemma generate_batches_trace_extends:
  "\<exists>rest. snd (generate_batches gen dec first i sizes acc tr) = tr @ rest"
proof (induction sizes arbitrary: i acc tr)
  case Nil
  show ?case by simp
next
  case (Cons sz sizes)
  show ?case
  proof (cases "i = 0")
    case True
    then show ?thesis using Cons.IH[of "i + 1" "acc @ dec first" tr] by simp
  next
    case False
    show ?thesis
    proof (cases "gen tr sz")
      case (Inl e)
      then show ?thesis using False by simp
    next
      case (Inr outputs)
      from Cons.IH[of "i + 1" "acc @ dec outputs" "tr @ [Generate sz]"]
      obtain rest where
        "snd (generate_batches gen dec first (i + 1) sizes (acc @ dec outputs)
                (tr @ [Generate sz])) = (tr @ [Generate sz]) @ rest"
        by blast
      then show ?thesis using False Inr by simp
    qed
  qed
qed

lemma continue_trace_extends:
  "\<exists>rest. snd (snd (generate_text_continue E self args config n tr)) = tr @ rest"
proof -
  obtain formatted self1 where fp:
    "format_prompt (get_prompt E) self (arg_prompt args) (arg_model_context args)
       (arg_infill_suffix args) (arg_system_prompt args) (arg_prompt_template_mode args)
     = (formatted, self1)"
    by (cases "format_prompt (get_prompt E) self (arg_prompt args) (arg_model_context args)
       (arg_infill_suffix args) (arg_system_prompt args) (arg_prompt_template_mode args)")
  obtain crit pats where sc:
    "create_stopping_criteria (EXTENDED_CODE_STOP_PATTERNS E) self1
        (int (length (encode E formatted))) (arg_stopping_patterns args) (arg_parser args)
     = (crit, pats)"
    by (cases "create_stopping_criteria (EXTENDED_CODE_STOP_PATTERNS E) self1
        (int (length (encode E formatted))) (arg_stopping_patterns args) (arg_parser args)")
  show ?thesis
  proof (cases "case arg_batch_size args of
                  None \<Rightarrow> infer_best_batch_size (memory E) self1
                            (int (length (encode E formatted))) (arg_max_new_tokens args) n
                | Some b \<Rightarrow> Inr b")
    case (Inl e)
    then show ?thesis by (simp add: generate_text_continue_def fp sc Let_def)
  next
    case (Inr b)
    obtain r tr1 where oom:
      "oom_safe_batch_generation (generate E) (encode E formatted) config crit (min b n) tr
       = (r, tr1)"
      by (cases "oom_safe_batch_generation (generate E) (encode E formatted) config crit
                   (min b n) tr")
    obtain rest1 where tr1: "tr1 = tr @ rest1"
      using oom_safe_trace_starts[of "generate E" "encode E formatted" config crit "min b n" tr]
        oom by auto
    show ?thesis
    proof (cases r)
      case (Inl e)
      then show ?thesis using Inr oom tr1
        by (simp add: generate_text_continue_def fp sc Let_def)
    next
      case r: (Inr fb)
      obtain first b' where fb: "fb = (first, b')" by (cases fb)
      show ?thesis
      proof (cases "generate_text_batch_sizes n b'")
        case (Inl e)
        then show ?thesis using Inr oom tr1 r fb
          by (simp add: generate_text_continue_def fp sc Let_def)
      next
        case sizes: (Inr sizes)
        let ?dec = "decode_batch E self1 args (length (encode E formatted)) pats
                  (if arg_infill_suffix args = [] \<and> arg_system_prompt args = []
                   then arg_prompt args @ arg_model_context args else formatted)"
        obtain g tr2 where gb:
          "generate_batches (\<lambda>tr sz. generate E tr (encode E formatted) config crit sz)
             ?dec first 0 sizes [] tr1 = (g, tr2)"
          by (cases "generate_batches
                (\<lambda>tr sz. generate E tr (encode E formatted) config crit sz)
                ?dec first 0 sizes [] tr1")
        obtain rest2 where tr2: "tr2 = tr1 @ rest2"
          using generate_batches_trace_extends[of
                "\<lambda>tr sz. generate E tr (encode E formatted) config crit sz"
                ?dec first 0 sizes "[]" tr1] gb by auto
        show ?thesis using Inr oom tr1 r fb sizes gb tr2
          by (cases g) (auto simp: generate_text_continue_def fp sc Let_def split: list.splits)
      qed
    qed
  qed
qed

lemma continue_result_shape:
  assumes "generate_text_continue E self args config n tr = (Inr out, self', tr')"
  shows "(\<exists>s. out = Single s) \<longleftrightarrow> n = 1" "n \<noteq> 1 \<Longrightarrow> \<exists>l. out = Many l"
  using assms
  by (auto simp: generate_text_continue_def Let_def
      split: prod.splits sum.splits option.splits list.splits if_splits)

lemma greedy_run:
  "generate_text example_env example_model greedy_request [] =
     (Inr (Single ''yy''), example_model, [Warn GreedyWithSeveralSequences, Generate 1])"
  by code_simp

lemma sampling_run:
  "generate_text example_env example_model sampling_request [] =
     (Inr (Many [''yy'', ''yy'', ''yy'']), example_model, [Generate 2, Generate 1])"
  by code_simp

lemma greedy_request_config:
  "create_generation_config (library example_env) example_model
     (arg_max_new_tokens greedy_request) (arg_min_new_tokens greedy_request)
     (arg_do_sample greedy_request) (arg_top_k greedy_request) (arg_top_p greedy_request)
     (arg_temperature greedy_request) = Inr greedy_config"
  by code_simp

text \<open>
  Claim C7. For every request to \<open>generate_text\<close> with \<open>num_return_sequences > 1\<close> whose
  configuration is resolved with sampling disabled (the caller's flag is off, or the
  temperature is 0, and then \<open>do_sample\<close> of the configuration is \<open>False\<close>), the advisory
  warning is emitted and the run is the rest of \<open>generate_text\<close> for exactly one
  sequence: the warning is in the final trace, right after the seeding, and a result,
  when there is one, is a single sequence.
\<close>

theorem greedy_request_collapses:
  assumes "1 < arg_num_return_sequences args"
    and "create_generation_config (library E) self (arg_max_new_tokens args)
           (arg_min_new_tokens args) (arg_do_sample args) (arg_top_k args) (arg_top_p args)
           (arg_temperature args) = Inr config"
    and "\<not> arg_do_sample args \<or> arg_temperature args = 0"
  shows "\<not> do_sample config
     \<and> generate_text E self args tr =
         generate_text_continue E self args config 1
           ((case arg_seed args of None \<Rightarrow> tr | Some seed \<Rightarrow> tr @ [SetAllSeeds seed])
              @ [Warn GreedyWithSeveralSequences])
     \<and> (\<exists>rest. snd (snd (generate_text E self args tr)) =
           (case arg_seed args of None \<Rightarrow> tr | Some seed \<Rightarrow> tr @ [SetAllSeeds seed])
             @ Warn GreedyWithSeveralSequences # rest)
     \<and> (\<forall>out self' tr'. generate_text E self args tr = (Inr out, self', tr')
           \<longrightarrow> (\<exists>s. out = Single s))"
proof -
  let ?tr = "case arg_seed args of None \<Rightarrow> tr | Some seed \<Rightarrow> tr @ [SetAllSeeds seed]"
  have nds: "\<not> do_sample config" using assms(2,3) created_do_sample by blast
  have eq: "generate_text E self args tr =
           generate_text_continue E self args config 1 (?tr @ [Warn GreedyWithSeveralSequences])"
    using assms(1,2) nds by (simp add: generate_text_def Let_def)
  obtain rest where "snd (snd (generate_text_continue E self args config 1
              (?tr @ [Warn GreedyWithSeveralSequences])))
          = (?tr @ [Warn GreedyWithSeveralSequences]) @ rest"
    using continue_trace_extends by blast
  then have tr: "\<exists>rest. snd (snd (generate_text E self args tr)) =
           ?tr @ Warn GreedyWithSeveralSequences # rest"
    using eq by simp
  have single: "\<forall>out self' tr'. generate_text E self args tr = (Inr out, self', tr')
           \<longrightarrow> (\<exists>s. out = Single s)"
    using eq continue_result_shape(1) by (metis (no_types, lifting))
  show ?thesis using nds eq tr single by blast
qed

theorem greedy_request_collapses_witness:
  "1 < arg_num_return_sequences greedy_request
   \<and> create_generation_config (library example_env) example_model
       (arg_max_new_tokens greedy_request) (arg_min_new_tokens greedy_request)
       (arg_do_sample greedy_request) (arg_top_k greedy_request) (arg_top_p greedy_request)
       (arg_temperature greedy_request) = Inr greedy_config
   \<and> \<not> arg_do_sample greedy_request
   \<and> generate_text example_env example_model greedy_request [] =
       (Inr (Single ''yy''), example_model, [Warn GreedyWithSeveralSequences, Generate 1])
   \<and> generate_text_continue example_env example_model greedy_request greedy_config 1
       [Warn GreedyWithSeveralSequences] =
       (Inr (Single ''yy''), example_model, [Warn GreedyWithSeveralSequences, Generate 1])"
proof -
  have a: "1 < arg_num_return_sequences greedy_request"
    and b: "\<not> arg_do_sample greedy_request \<or> arg_temperature greedy_request = 0"
    and s: "arg_seed greedy_request = None"
    by (simp_all add: greedy_request_def)
  from greedy_request_collapses[OF a greedy_request_config b, of "[]"]
  have "generate_text example_env example_model greedy_request [] =
         generate_text_continue example_env example_model greedy_request greedy_config 1
           [Warn GreedyWithSeveralSequences]"
    using s by simp
  then show ?thesis using a greedy_request_config greedy_run
    by (simp add: greedy_request_def)
qed

text \<open>
  Claim C8 says that \<open>generate_text\<close> returns a single string exactly when the caller
  asked for one sequence, and a list for every request of more than one. The test of
  line 509 reads the number of sequences after the collapse of lines 425-429: a request
  for two sequences without sampling returns a single string.
\<close>

theorem single_value_for_two_greedy_sequences:
  "arg_num_return_sequences greedy_request = 2
   \<and> fst (generate_text example_env example_model greedy_request []) = Inr (Single ''yy'')"
  by (simp add: greedy_run) (simp add: greedy_request_def)

text \<open>
  Claim C8, amended. A value returned by \<open>generate_text\<close> is a single string exactly when
  the number of sequences in force after lines 425-429 is 1, that is when the caller
  asked for one sequence, or asked for more than one with sampling disabled
  (\<open>do_sample\<close> off or temperature 0). A request for more than one sequence with
  sampling enabled returns a list.
\<close>

theorem single_value_iff_effective_count_one:
  assumes "generate_text E self args tr = (Inr out, self', tr')"
  shows "((\<exists>s. out = Single s) \<longleftrightarrow>
            arg_num_return_sequences args = 1
            \<or> (1 < arg_num_return_sequences args
                \<and> (\<not> arg_do_sample args \<or> arg_temperature args = 0)))
     \<and> (1 < arg_num_return_sequences args \<and> arg_do_sample args \<and> arg_temperature args \<noteq> 0
          \<longrightarrow> (\<exists>l. out = Many l))"
proof -
  obtain config where c: "create_generation_config (library E) self (arg_max_new_tokens args)
           (arg_min_new_tokens args) (arg_do_sample args) (arg_top_k args) (arg_top_p args)
           (arg_temperature args) = Inr config"
    using assms by (auto simp: generate_text_def Let_def split: sum.splits)
  have ds: "do_sample config = (arg_do_sample args \<and> arg_temperature args \<noteq> 0)"
    using c by (rule created_do_sample)
  let ?tr = "case arg_seed args of None \<Rightarrow> tr | Some seed \<Rightarrow> tr @ [SetAllSeeds seed]"
  show ?thesis
  proof (cases "1 < arg_num_return_sequences args \<and> \<not> do_sample config")
    case True
    then have "generate_text_continue E self args config 1
                 (?tr @ [Warn GreedyWithSeveralSequences]) = (Inr out, self', tr')"
      using assms c by (simp add: generate_text_def Let_def)
    from continue_result_shape(1)[OF this] show ?thesis using True ds by auto
  next
    case False
    then have r: "generate_text_continue E self args config (arg_num_return_sequences args) ?tr
                 = (Inr out, self', tr')"
      using assms c by (auto simp: generate_text_def Let_def)
    from continue_result_shape[OF r] show ?thesis using False ds by auto
  qed
qed

theorem single_value_iff_effective_count_one_witness:
  "generate_text example_env example_model sampling_request [] =
     (Inr (Many [''yy'', ''yy'', ''yy'']), example_model, [Generate 2, Generate 1])
   \<and> 1 < arg_num_return_sequences sampling_request
   \<and> arg_do_sample sampling_request \<and> arg_temperature sampling_request \<noteq> 0
   \<and> arg_num_return_sequences sampling_request \<noteq> 1"
proof -
  have a: "1 < arg_num_return_sequences sampling_request
      \<and> arg_do_sample sampling_request \<and> arg_temperature sampling_request \<noteq> 0"
    by (simp add: sampling_request_def greedy_request_def)
  from single_value_iff_effective_count_one[OF sampling_run] a
  have "arg_num_return_sequences sampling_request \<noteq> 1" by simp
  then show ?thesis using a sampling_run by simp
qed

end
